theory Spec2Isabelle
  imports Main
begin

section \<open>The parameter mapper of utils/parameterMapper.js\<close>

text \<open>
  The mapper turns the loosely named parameters extracted upstream into the parameter
  object of the storage SDK. The embedding follows \<^verbatim>\<open>class ParameterMapper\<close> method by
  method and keeps the behaviour of the JavaScript operations the methods are written
  with: property reads that see the members every plain object inherits from
  \<^verbatim>\<open>Object.prototype\<close>, the \<^verbatim>\<open>__proto__\<close> accessor, strict-mode assignment (a class body
  is strict code), \<^verbatim>\<open>new Date(value)\<close> and \<^verbatim>\<open>String.prototype.split\<close>.
\<close>

subsection \<open>Values\<close>

text \<open>
  The time value of a Date object. \<open>Parsed s\<close> stands for whatever \<^verbatim>\<open>Date.parse(s)\<close>
  yields for the string \<open>s\<close> (a number of milliseconds, or NaN when the engine cannot
  read \<open>s\<close>); the parser belongs to the engine, not to the mapper, and is left
  uninterpreted.
\<close>

datatype timevalue = Millis int | NaN | Parsed string

text \<open>
  JavaScript values as the mapper meets them: undefined, null, booleans, numbers,
  strings, plain objects, and Date objects (those \<open>convertType\<close> builds, or passed in;
  a Date has no properties of its own). A plain object is the list of its own enumerable
  properties in creation order, none of them callable; objects are trees (no value is
  shared between two places). When it enumerates an object JavaScript puts integer-like
  names first, which the lists do not show; the mapper writes the same properties in
  either order. Number payloads are integers: the mapper looks at a number
  only to test its truthiness and inside \<^verbatim>\<open>new Date(n)\<close>. Strings are ASCII. On such
  values the two \<^verbatim>\<open>JSON.stringify\<close> calls that feed \<^verbatim>\<open>console.log\<close> complete, so the
  log lines are left out.
\<close>

datatype jsval =
    JUndefined
  | JNull
  | JBool bool
  | JNum int
  | JStr string
  | JDate timevalue
  | JObj "(string \<times> jsval) list"

type_synonym obj = "(string \<times> jsval) list"

datatype error = TypeError

text \<open>
  How a call ends. \<open>Returns\<close> and \<open>Throws\<close> are the two ways a JavaScript call
  completes. \<open>Escapes\<close> marks a call that leaves the part of JavaScript the embedding
  follows: it has reached an object that is not its own through the prototype chain and
  tried to write there (a property of \<^verbatim>\<open>Object.prototype\<close> or of one of its members), it
  has replaced the prototype of an object it holds, or it has added a property to a Date
  object. JavaScript goes on from there, but what later property reads, conversions and
  the logging of the result do then depends on state the embedding does not keep.
\<close>

datatype 'a outcome = Returns 'a | Throws error | Escapes

fun truthy :: "jsval \<Rightarrow> bool" where
  "truthy JUndefined = False"
| "truthy JNull = False"
| "truthy (JBool b) = b"
| "truthy (JNum n) = (n \<noteq> 0)"
| "truthy (JStr s) = (s \<noteq> [])"
| "truthy (JDate t) = True"
| "truthy (JObj ps) = True"

fun isObject :: "jsval \<Rightarrow> bool" where
  "isObject (JDate t) = True"
| "isObject (JObj ps) = True"
| "isObject v = False"

subsection \<open>Plain objects\<close>

text \<open>
  The names a plain object inherits from \<^verbatim>\<open>Object.prototype\<close> (Node.js):
  \<^verbatim>\<open>Object.getOwnPropertyNames(Object.prototype)\<close>. All are functions, except \<^verbatim>\<open>__proto__\<close>,
  an accessor whose getter returns \<^verbatim>\<open>Object.prototype\<close> itself.
\<close>

definition objectPrototypeKeys :: "string list" where
  "objectPrototypeKeys =
     [''constructor'', ''__defineGetter__'', ''__defineSetter__'', ''hasOwnProperty'',
      ''__lookupGetter__'', ''__lookupSetter__'', ''isPrototypeOf'',
      ''propertyIsEnumerable'', ''toString'', ''valueOf'', ''__proto__'',
      ''toLocaleString'']"

text \<open>Writing an own property: an existing key keeps its place, a new key goes last.\<close>

fun setOwn :: "(string \<times> 'v) list \<Rightarrow> string \<Rightarrow> 'v \<Rightarrow> (string \<times> 'v) list" where
  "setOwn [] k v = [(k, v)]"
| "setOwn ((k', v') # ps) k v =
     (if k' = k then (k', v) # ps else (k', v') # setOwn ps k v)"

text \<open>
  \<^verbatim>\<open>o[k] = v\<close> on an ordinary object \<open>o\<close>. An own property is overwritten. Otherwise the
  name \<^verbatim>\<open>__proto__\<close> reaches the inherited setter, which replaces the prototype of \<open>o\<close> when
  \<open>v\<close> is an object or null and does nothing for any other \<open>v\<close>; every other name becomes
  a new own property (the inherited functions are writable data properties).
\<close>

definition assign :: "obj \<Rightarrow> string \<Rightarrow> jsval \<Rightarrow> obj outcome" where
  "assign ps k v =
     (if map_of ps k \<noteq> None then Returns (setOwn ps k v)
      else if k = ''__proto__'' then (if isObject v \<or> v = JNull then Escapes else Returns ps)
      else Returns (setOwn ps k v))"

text \<open>
  \<^verbatim>\<open>Object.assign(target, source)\<close>: the own enumerable properties of \<open>source\<close>, in
  order, each written with an ordinary assignment.
\<close>

fun objectAssign :: "obj \<Rightarrow> obj \<Rightarrow> obj outcome" where
  "objectAssign target [] = Returns target"
| "objectAssign target ((k, v) # src) =
     (case assign target k v of
        Returns t \<Rightarrow> objectAssign t src
      | Throws e \<Rightarrow> Throws e
      | Escapes \<Rightarrow> Escapes)"

text \<open>
  \<^verbatim>\<open>s.split(".")\<close>: the pieces between the dots; a string without a dot is one piece, and
  the empty string is one empty piece.
\<close>

fun splitDot :: "string \<Rightarrow> string list" where
  "splitDot [] = [[]]"
| "splitDot (c # cs) =
     (if c = CHR ''.'' then [] # splitDot cs
      else (case splitDot cs of
              p # ps \<Rightarrow> (c # p) # ps
            | [] \<Rightarrow> [[c]]))"

subsection \<open>The mapper object\<close>

record mapper =
  knownMappings :: "(string \<times> string) list"
  dateParameters :: "string list"
  booleanParameters :: "string list"

text \<open>
  The object the constructor builds. The object literal names \<^verbatim>\<open>ifNoneMatch\<close> twice
  with the same target; a repeated name keeps its first place.
\<close>

definition newParameterMapper :: mapper where
  "newParameterMapper = \<lparr>
     knownMappings =
       [(''bucketName'', ''Bucket''),
        (''fileName'', ''Key''),
        (''fileContent'', ''Body''),
        (''objectLockEnabledForBucket'', ''ObjectLockEnabledForBucket''),
        (''acl'', ''ACL''),
        (''locationConstraint'', ''CreateBucketConfiguration.LocationConstraint''),
        (''objectOwnership'', ''ObjectOwnership''),
        (''ifMatch'', ''IfMatch''),
        (''ifModifiedSince'', ''IfModifiedSince''),
        (''ifNoneMatch'', ''IfNoneMatch''),
        (''ifUnmodifiedSince'', ''IfUnmodifiedSince''),
        (''range'', ''Range''),
        (''responseCacheControl'', ''ResponseCacheControl''),
        (''responseContentType'', ''ResponseContentType''),
        (''responseContentDisposition'', ''ResponseContentDisposition''),
        (''responseContentEncoding'', ''ResponseContentEncoding''),
        (''responseContentLanguage'', ''ResponseContentLanguage''),
        (''responseExpires'', ''ResponseExpires''),
        (''versionId'', ''VersionId''),
        (''sseCustomerAlgorithm'', ''SSECustomerAlgorithm''),
        (''sseCustomerKey'', ''SSECustomerKey''),
        (''sseCustomerKeyMD5'', ''SSECustomerKeyMD5''),
        (''requestPayer'', ''RequestPayer''),
        (''partNumber'', ''PartNumber''),
        (''expectedBucketOwner'', ''ExpectedBucketOwner''),
        (''checksumMode'', ''ChecksumMode''),
        (''cacheControl'', ''CacheControl''),
        (''contentDisposition'', ''ContentDisposition''),
        (''contentEncoding'', ''ContentEncoding''),
        (''contentLanguage'', ''ContentLanguage''),
        (''contentLength'', ''ContentLength''),
        (''contentMD5'', ''ContentMD5''),
        (''contentType'', ''ContentType''),
        (''checksumAlgorithm'', ''ChecksumAlgorithm''),
        (''checksumCRC32'', ''ChecksumCRC32''),
        (''checksumCRC32C'', ''ChecksumCRC32C''),
        (''checksumSHA1'', ''ChecksumSHA1''),
        (''checksumSHA256'', ''ChecksumSHA256''),
        (''expires'', ''Expires''),
        (''grantFullControl'', ''GrantFullControl''),
        (''grantRead'', ''GrantRead''),
        (''grantReadACP'', ''GrantReadACP''),
        (''grantWriteACP'', ''GrantWriteACP''),
        (''metadata'', ''Metadata''),
        (''serverSideEncryption'', ''ServerSideEncryption''),
        (''storageClass'', ''StorageClass''),
        (''websiteRedirectLocation'', ''WebsiteRedirectLocation''),
        (''sseKMSKeyId'', ''SSEKMSKeyId''),
        (''sseKMSEncryptionContext'', ''SSEKMSEncryptionContext''),
        (''bucketKeyEnabled'', ''BucketKeyEnabled''),
        (''tagging'', ''Tagging''),
        (''objectLockMode'', ''ObjectLockMode''),
        (''objectLockRetainUntilDate'', ''ObjectLockRetainUntilDate''),
        (''objectLockLegalHoldStatus'', ''ObjectLockLegalHoldStatus''),
        (''maxBuckets'', ''MaxBuckets''),
        (''continuationToken'', ''ContinuationToken''),
        (''prefix'', ''Prefix''),
        (''bucketRegion'', ''BucketRegion''),
        (''mfa'', ''MFA''),
        (''bypassGovernanceRetention'', ''BypassGovernanceRetention'')],
     dateParameters =
       [''IfModifiedSince'', ''IfUnmodifiedSince'', ''ResponseExpires'', ''Expires'',
        ''ObjectLockRetainUntilDate''],
     booleanParameters = [''ObjectLockEnabledForBucket'', ''BucketKeyEnabled''] \<rparr>"

text \<open>
  The value of \<^verbatim>\<open>this.knownMappings[key]\<close>: the target string of an own entry, else the
  member inherited under that name (a function, or \<^verbatim>\<open>Object.prototype\<close> for \<^verbatim>\<open>__proto__\<close>),
  else undefined.
\<close>

datatype tableval = TStr string | TBuiltin | TUndefined

definition getMapping :: "mapper \<Rightarrow> string \<Rightarrow> tableval" where
  "getMapping m key =
     (case map_of (knownMappings m) key of
        Some t \<Rightarrow> TStr t
      | None \<Rightarrow> if key \<in> set objectPrototypeKeys then TBuiltin else TUndefined)"

subsection \<open>convertType\<close>

text \<open>
  \<^verbatim>\<open>new Date(value)\<close>. A Date argument is copied; any other object is first turned into a
  primitive, which calls the inherited \<^verbatim>\<open>valueOf\<close> (it returns the object, so is passed
  over) and then \<^verbatim>\<open>toString\<close>: the inherited one gives \<^verbatim>\<open>"[object Object]"\<close>, while an own
  property of that name is not callable and the conversion raises a TypeError. A string
  is parsed; a number is clipped to the range of time values; the constructor itself
  never rejects a string.
\<close>

fun newDate :: "jsval \<Rightarrow> jsval outcome" where
  "newDate (JDate t) = Returns (JDate t)"
| "newDate (JObj ps) =
     (if map_of ps ''toString'' \<noteq> None then Throws TypeError
      else Returns (JDate (Parsed ''[object Object]'')))"
| "newDate (JStr s) = Returns (JDate (Parsed s))"
| "newDate (JNum n) =
     Returns (JDate (if \<bar>n\<bar> \<le> 8640000000000000 then Millis n else NaN))"
| "newDate (JBool b) = Returns (JDate (Millis (if b then 1 else 0)))"
| "newDate JNull = Returns (JDate (Millis 0))"
| "newDate JUndefined = Returns (JDate NaN)"

definition convertType :: "mapper \<Rightarrow> string \<Rightarrow> jsval \<Rightarrow> jsval outcome" where
  "convertType m key value =
     (if key \<in> set (dateParameters m) then newDate value
      else if key \<in> set (booleanParameters m)
        then Returns (JBool (value = JBool True \<or> value = JStr ''true''))
      else Returns value)"

subsection \<open>handleNestedParameter\<close>

text \<open>
  \<^verbatim>\<open>x[child] = value\<close> for the value \<open>x\<close> found under the parent name. A plain object
  takes the property, and so does a Date (beyond what the embedding follows, unless the
  \<^verbatim>\<open>__proto__\<close> setter ignores the value). A primitive cannot: strict code raises a
  TypeError, except for the name \<^verbatim>\<open>__proto__\<close>, whose inherited setter returns without
  doing anything.
\<close>

fun writeChild :: "jsval \<Rightarrow> string \<Rightarrow> jsval \<Rightarrow> jsval outcome" where
  "writeChild (JObj ps) child value =
     (case assign ps child value of
        Returns ps' \<Rightarrow> Returns (JObj ps')
      | Throws e \<Rightarrow> Throws e
      | Escapes \<Rightarrow> Escapes)"
| "writeChild (JDate t) child value =
     (if child = ''__proto__'' \<and> \<not> (isObject value \<or> value = JNull) then Returns (JDate t)
      else Escapes)"
| "writeChild x child value =
     (if child = ''__proto__'' then Returns x else Throws TypeError)"

text \<open>
  \<^verbatim>\<open>result[parent]\<close> is read through the prototype chain: an own property first, then the
  inherited members. A falsy own value is replaced by a fresh object; an inherited
  member is truthy, so the child is written into that built-in.
\<close>

definition handleNestedParameter :: "obj \<Rightarrow> string \<Rightarrow> jsval \<Rightarrow> obj outcome" where
  "handleNestedParameter result mappedKey value =
     (case splitDot mappedKey of
        [parent, child] \<Rightarrow>
          (case map_of result parent of
             Some x \<Rightarrow>
               (case writeChild (if truthy x then x else JObj []) child value of
                  Returns x' \<Rightarrow> Returns (setOwn result parent x')
                | Throws e \<Rightarrow> Throws e
                | Escapes \<Rightarrow> Escapes)
           | None \<Rightarrow>
               if parent \<in> set objectPrototypeKeys then Escapes
               else
                 (case writeChild (JObj []) child value of
                    Returns x' \<Rightarrow> Returns (setOwn result parent x')
                  | Throws e \<Rightarrow> Throws e
                  | Escapes \<Rightarrow> Escapes))
      | _ \<Rightarrow> Returns result)"

subsection \<open>smartCaseConversion\<close>

definition toUpperCase :: "char \<Rightarrow> char" where
  "toUpperCase c =
     (case map_of (zip ''abcdefghijklmnopqrstuvwxyz'' ''ABCDEFGHIJKLMNOPQRSTUVWXYZ'') c of
        Some u \<Rightarrow> u
      | None \<Rightarrow> c)"

text \<open>\<^verbatim>\<open>camelCaseKey.charAt(0).toUpperCase() + camelCaseKey.slice(1)\<close>\<close>

definition smartCaseConversion :: "string \<Rightarrow> string" where
  "smartCaseConversion camelCaseKey =
     map toUpperCase (take 1 camelCaseKey) @ drop 1 camelCaseKey"

subsection \<open>mapParameters\<close>

text \<open>
  One turn of the loop over \<^verbatim>\<open>Object.entries(inputParams)\<close>, on the pair of objects
  \<open>(result, unmappedParams)\<close>. Calling \<^verbatim>\<open>mappedKey.includes\<close> on an inherited member
  raises a TypeError: no built-in reached this way has such a method.
\<close>

definition mapEntry :: "mapper \<Rightarrow> string \<times> jsval \<Rightarrow> obj \<times> obj \<Rightarrow> (obj \<times> obj) outcome" where
  "mapEntry m entry s =
     (case entry of (key, value) \<Rightarrow>
      case s of (result, unmappedParams) \<Rightarrow>
        if value = JUndefined \<or> value = JNull then Returns s
        else
          (case getMapping m key of
             TBuiltin \<Rightarrow> Throws TypeError
           | TStr mappedKey \<Rightarrow>
               if mappedKey \<noteq> [] then
                 (if CHR ''.'' \<in> set mappedKey then
                    (case handleNestedParameter result mappedKey value of
                       Returns r \<Rightarrow> Returns (r, unmappedParams)
                     | Throws e \<Rightarrow> Throws e
                     | Escapes \<Rightarrow> Escapes)
                  else
                    (case convertType m mappedKey value of
                       Returns v \<Rightarrow>
                         (case assign result mappedKey v of
                            Returns r \<Rightarrow> Returns (r, unmappedParams)
                          | Throws e \<Rightarrow> Throws e
                          | Escapes \<Rightarrow> Escapes)
                     | Throws e \<Rightarrow> Throws e
                     | Escapes \<Rightarrow> Escapes))
               else
                 (case assign unmappedParams (smartCaseConversion key) value of
                    Returns u \<Rightarrow> Returns (result, u)
                  | Throws e \<Rightarrow> Throws e
                  | Escapes \<Rightarrow> Escapes)
           | TUndefined \<Rightarrow>
               (case assign unmappedParams (smartCaseConversion key) value of
                  Returns u \<Rightarrow> Returns (result, u)
                | Throws e \<Rightarrow> Throws e
                | Escapes \<Rightarrow> Escapes)))"

fun mapLoop :: "mapper \<Rightarrow> obj \<Rightarrow> obj \<times> obj \<Rightarrow> (obj \<times> obj) outcome" where
  "mapLoop m [] s = Returns s"
| "mapLoop m (entry # entries) s =
     (case mapEntry m entry s of
        Returns s' \<Rightarrow> mapLoop m entries s'
      | Throws e \<Rightarrow> Throws e
      | Escapes \<Rightarrow> Escapes)"

text \<open>
  The argument is the list \<^verbatim>\<open>Object.entries(inputParams)\<close> yields: the own properties of
  the input in its own key order, every key once.
\<close>

definition mapParameters :: "mapper \<Rightarrow> obj \<Rightarrow> obj outcome" where
  "mapParameters m inputParams =
     (case mapLoop m inputParams ([], []) of
        Returns (result, unmappedParams) \<Rightarrow> objectAssign result unmappedParams
      | Throws e \<Rightarrow> Throws e
      | Escapes \<Rightarrow> Escapes)"

subsection \<open>addMapping\<close>

text \<open>
  \<^verbatim>\<open>this.knownMappings[camelCase] = pascalCase\<close> stores a string, so for the name
  \<^verbatim>\<open>__proto__\<close> (never an own property of the table) the inherited setter is called with a
  non-object and nothing is stored. The third argument is null when omitted.
\<close>

definition addMapping :: "mapper \<Rightarrow> string \<Rightarrow> string \<Rightarrow> string option \<Rightarrow> mapper" where
  "addMapping m camelCase pascalCase kind =
     m \<lparr> knownMappings :=
           (if map_of (knownMappings m) camelCase = None \<and> camelCase = ''__proto__''
            then knownMappings m
            else setOwn (knownMappings m) camelCase pascalCase),
         dateParameters :=
           (if kind = Some ''date'' then dateParameters m @ [pascalCase]
            else dateParameters m),
         booleanParameters :=
           (if kind = Some ''date'' then booleanParameters m
            else if kind = Some ''boolean'' then booleanParameters m @ [pascalCase]
            else booleanParameters m) \<rparr>"

subsection \<open>The conversion registry\<close>

text \<open>No target key is registered both as date-valued and as boolean-valued.\<close>

definition disjointRegistry :: "mapper \<Rightarrow> bool" where
  "disjointRegistry m = (set (dateParameters m) \<inter> set (booleanParameters m) = {})"

subsection \<open>Entries that take the fallback route\<close>

text \<open>
  The loop sends an entry to \<open>unmappedParams\<close> when its value passes the null test and
  the table read is falsy: nothing found under the key, or an own entry whose target is
  the empty string.
\<close>

definition fallbackEntry :: "mapper \<Rightarrow> string \<times> jsval \<Rightarrow> bool" where
  "fallbackEntry m entry =
     (snd entry \<noteq> JUndefined \<and> snd entry \<noteq> JNull
      \<and> (getMapping m (fst entry) = TUndefined \<or> getMapping m (fst entry) = TStr []))"

subsection \<open>Well-formed tables and raising entries\<close>

text \<open>The parent segments of the two-segment targets of the table.\<close>

definition nestedParents :: "mapper \<Rightarrow> string list" where
  "nestedParents m =
     concat (map (\<lambda>(k, t). case splitDot t of [parent, child] \<Rightarrow> [parent] | _ \<Rightarrow> [])
       (knownMappings m))"

text \<open>
  A table is well-formed when no source key and no target is \<^verbatim>\<open>__proto__\<close>, no target is
  the parent segment of a two-segment target, and no two-segment target has an inherited
  name as its parent or \<^verbatim>\<open>__proto__\<close> as its child. The constructor's table is well-formed.
\<close>

definition wellFormedTable :: "mapper \<Rightarrow> bool" where
  "wellFormedTable m =
     list_all (\<lambda>(k, t).
         k \<noteq> ''__proto__'' \<and> t \<noteq> ''__proto__'' \<and> t \<notin> set (nestedParents m)
         \<and> (case splitDot t of
               [parent, child] \<Rightarrow> parent \<notin> set objectPrototypeKeys \<and> child \<noteq> ''__proto__''
             | _ \<Rightarrow> True))
       (knownMappings m)"

text \<open>
  What the loop keeps true of the result on a well-formed table: under each parent
  segment there is nothing yet, or the sub-mapping handleNestedParameter created.
\<close>

definition parentsAreObjects :: "mapper \<Rightarrow> obj \<Rightarrow> bool" where
  "parentsAreObjects m result =
     list_all (\<lambda>parent. case map_of result parent of
                 None \<Rightarrow> True
               | Some x \<Rightarrow> (case x of JObj ps \<Rightarrow> True | _ \<Rightarrow> False))
       (nestedParents m)"

text \<open>
  An entry on which the loop raises: its value passes the null test, and either the table
  read under its key finds an inherited member, or its target is flat and convertType
  raises on the value.
\<close>

definition raisingEntry :: "mapper \<Rightarrow> string \<times> jsval \<Rightarrow> bool" where
  "raisingEntry m entry =
     (snd entry \<noteq> JUndefined \<and> snd entry \<noteq> JNull
      \<and> (case getMapping m (fst entry) of
            TBuiltin \<Rightarrow> True
          | TUndefined \<Rightarrow> False
          | TStr t \<Rightarrow> t \<noteq> [] \<and> CHR ''.'' \<notin> set t
                        \<and> convertType m t (snd entry) = Throws TypeError))"

subsection \<open>Where an entry writes into the result\<close>


section \<open>Auxiliary facts\<close>

lemma map_of_setOwn: "map_of (setOwn ps k v) = (map_of ps)(k \<mapsto> v)"
  by (induction ps) (auto simp: fun_eq_iff)

lemma keys_setOwn: "fst ` set (setOwn ps k v) = insert k (fst ` set ps)"
  by (simp add: dom_map_of_conv_image_fst [symmetric] map_of_setOwn)

lemma distinct_setOwn: "distinct (map fst ps) \<Longrightarrow> distinct (map fst (setOwn ps k v))"
  by (induction ps) (auto simp: keys_setOwn)

lemma mapLoop_append:
  "mapLoop m (xs @ ys) s =
     (case mapLoop m xs s of
        Returns s' \<Rightarrow> mapLoop m ys s'
      | Throws e \<Rightarrow> Throws e
      | Escapes \<Rightarrow> Escapes)"
  by (induction xs arbitrary: s) (auto split: outcome.splits)

lemma splitDot_no_dot: "CHR ''.'' \<notin> set t \<Longrightarrow> splitDot t = [t]"
  by (induction t) auto

lemma splitDot_pair_has_dot: "splitDot t = [p, c] \<Longrightarrow> CHR ''.'' \<in> set t"
  using splitDot_no_dot [of t] by auto

lemma mapEntry_nullish:
  "value = JNull \<or> value = JUndefined \<Longrightarrow> mapEntry m (key, value) s = Returns s"
  by (auto simp: mapEntry_def split: prod.splits)

lemma smartCaseConversion_proto:
  "smartCaseConversion k = ''__proto__'' \<Longrightarrow> k = ''__proto__''"
  by (cases k) (auto simp: smartCaseConversion_def toUpperCase_def split: option.splits if_splits)

lemma handleNestedParameter_other:
  "length (splitDot t) \<noteq> 2 \<Longrightarrow> handleNestedParameter result t v = Returns result"
  by (auto simp: handleNestedParameter_def split: list.splits)

lemma getMapping_TUndefined_not_inherited:
  "getMapping m k = TUndefined \<Longrightarrow> k \<notin> set objectPrototypeKeys"
  by (auto simp: getMapping_def split: option.splits if_splits)

lemma proto_inherited: "''__proto__'' \<in> set objectPrototypeKeys"
  by (simp add: objectPrototypeKeys_def)

lemma assign_fresh:
  "k \<noteq> ''__proto__'' \<Longrightarrow> assign ps k v = Returns (setOwn ps k v)"
  by (simp add: assign_def)

lemma fallback_single:
  assumes "getMapping m k = TUndefined" and "v \<noteq> JNull" and "v \<noteq> JUndefined"
  shows "mapParameters m [(k, v)] = Returns [(smartCaseConversion k, v)]"
proof -
  have "k \<noteq> ''__proto__''"
    using getMapping_TUndefined_not_inherited [OF assms(1)] proto_inherited by auto
  then have "smartCaseConversion k \<noteq> ''__proto__''"
    using smartCaseConversion_proto by blast
  then show ?thesis
    using assms by (simp add: mapParameters_def mapEntry_def assign_fresh)
qed

lemma flat_single:
  assumes "getMapping m k = TStr T" and "T \<noteq> []" and "CHR ''.'' \<notin> set T"
    and "T \<noteq> ''__proto__''" and "v \<noteq> JNull" and "v \<noteq> JUndefined"
  shows "mapParameters m [(k, v)] =
     (case convertType m T v of
        Returns v' \<Rightarrow> Returns [(T, v')]
      | Throws e \<Rightarrow> Throws e
      | Escapes \<Rightarrow> Escapes)"
  using assms by (simp add: mapParameters_def mapEntry_def assign_fresh split: outcome.splits)

lemma convertType_not_Escapes: "convertType m key v \<noteq> Escapes"
  by (cases v) (auto simp: convertType_def)

lemma initial_targets:
  "list_all (\<lambda>(k, t). t \<noteq> [] \<and> t \<noteq> ''__proto__''
       \<and> (CHR ''.'' \<in> set t \<longrightarrow> t = ''CreateBucketConfiguration.LocationConstraint''))
     (knownMappings newParameterMapper)"
  by code_simp

lemma initial_target_shape:
  assumes "getMapping newParameterMapper k = TStr t"
  shows "t \<noteq> [] \<and> t \<noteq> ''__proto__''
    \<and> (CHR ''.'' \<in> set t \<longrightarrow> t = ''CreateBucketConfiguration.LocationConstraint'')"
proof -
  from assms have "map_of (knownMappings newParameterMapper) k = Some t"
    by (auto simp: getMapping_def split: option.splits if_splits)
  then have "(k, t) \<in> set (knownMappings newParameterMapper)"
    by (rule map_of_SomeD)
  with initial_targets show ?thesis
    by (auto simp: list_all_iff)
qed


lemma assign_frame:
  "assign ps k v = Returns ps' \<Longrightarrow> K \<noteq> k \<Longrightarrow> map_of ps' K = map_of ps K"
  by (auto simp: assign_def map_of_setOwn split: if_splits)

lemma assign_value:
  "assign ps k v = Returns ps' \<Longrightarrow> k \<noteq> ''__proto__'' \<Longrightarrow> map_of ps' k = Some v"
  by (auto simp: assign_def map_of_setOwn split: if_splits)

lemma assign_noProto:
  "assign ps k v = Returns ps' \<Longrightarrow> map_of ps ''__proto__'' = None
     \<Longrightarrow> map_of ps' ''__proto__'' = None"
  by (auto simp: assign_def map_of_setOwn split: if_splits)

lemma assign_distinct:
  "assign ps k v = Returns ps' \<Longrightarrow> distinct (map fst ps) \<Longrightarrow> distinct (map fst ps')"
  by (auto simp: assign_def distinct_setOwn split: if_splits)

lemma mapEntry_not_fallback:
  "\<not> fallbackEntry m e \<Longrightarrow> mapEntry m e (r, um) = Returns (r', um') \<Longrightarrow> um' = um"
  by (cases e)
     (auto simp: mapEntry_def fallbackEntry_def split: tableval.splits if_splits outcome.splits)

lemma mapEntry_fallback:
  "fallbackEntry m (k, v) \<Longrightarrow> mapEntry m (k, v) (r, um) = Returns (r', um')
     \<Longrightarrow> r' = r \<and> assign um (smartCaseConversion k) v = Returns um'"
  by (auto simp: mapEntry_def fallbackEntry_def split: tableval.splits if_splits outcome.splits)

lemma mapLoop_unmapped:
  "mapLoop m xs (r, um) = Returns (r', um') \<Longrightarrow> map_of um ''__proto__'' = None
     \<Longrightarrow> distinct (map fst um)
     \<Longrightarrow> map_of um' ''__proto__'' = None \<and> distinct (map fst um')
        \<and> ((\<forall>e\<in>set xs. fallbackEntry m e \<longrightarrow> smartCaseConversion (fst e) \<noteq> K)
            \<longrightarrow> map_of um' K = map_of um K)"
proof (induction xs arbitrary: r um)
  case Nil
  then show ?case by simp
next
  case (Cons e xs)
  from Cons.prems(1) obtain r1 um1 where
    step: "mapEntry m e (r, um) = Returns (r1, um1)" and
    rest: "mapLoop m xs (r1, um1) = Returns (r', um')"
    by (auto split: outcome.splits)
  obtain k v where e: "e = (k, v)" by (cases e)
  have inv: "map_of um1 ''__proto__'' = None \<and> distinct (map fst um1)
     \<and> ((fallbackEntry m e \<longrightarrow> smartCaseConversion (fst e) \<noteq> K) \<longrightarrow> map_of um1 K = map_of um K)"
  proof (cases "fallbackEntry m e")
    case True
    with step e have a: "assign um (smartCaseConversion k) v = Returns um1"
      using mapEntry_fallback by blast
    show ?thesis
      using True Cons.prems(2,3) e assign_noProto [OF a] assign_distinct [OF a]
        assign_frame [OF a, of K]
      by auto
  next
    case False
    from mapEntry_not_fallback [OF False step] have "um1 = um" .
    with Cons.prems(2,3) show ?thesis by simp
  qed
  from inv have i1: "map_of um1 ''__proto__'' = None" and i2: "distinct (map fst um1)"
    by simp_all
  note IH = Cons.IH [OF rest i1 i2]
  show ?case
  proof (intro conjI impI)
    show "map_of um' ''__proto__'' = None" using IH by simp
    show "distinct (map fst um')" using IH by simp
    assume all: "\<forall>e\<in>set (e # xs). fallbackEntry m e \<longrightarrow> smartCaseConversion (fst e) \<noteq> K"
    then have "map_of um' K = map_of um1 K" using IH by simp
    moreover have "map_of um1 K = map_of um K" using inv all by simp
    ultimately show "map_of um' K = map_of um K" by simp
  qed
qed

lemma objectAssign_frame:
  "objectAssign t src = Returns out \<Longrightarrow> K \<notin> fst ` set src \<Longrightarrow> map_of out K = map_of t K"
proof (induction src arbitrary: t)
  case Nil
  then show ?case by simp
next
  case (Cons e src)
  obtain k v where e: "e = (k, v)" by (cases e)
  from Cons.prems(1) e obtain t1 where
    a: "assign t k v = Returns t1" and rest: "objectAssign t1 src = Returns out"
    by (auto split: outcome.splits)
  from Cons.prems(2) e have "K \<noteq> k" and "K \<notin> fst ` set src" by auto
  then show ?case
    using Cons.IH [OF rest] assign_frame [OF a] by simp
qed

lemma objectAssign_wins:
  "objectAssign r um = Returns out \<Longrightarrow> map_of um ''__proto__'' = None
     \<Longrightarrow> distinct (map fst um) \<Longrightarrow> map_of um K = Some w \<Longrightarrow> map_of out K = Some w"
proof (induction um arbitrary: r)
  case Nil
  then show ?case by simp
next
  case (Cons e um)
  obtain k v where e: "e = (k, v)" by (cases e)
  from Cons.prems(1) e obtain t1 where
    a: "assign r k v = Returns t1" and rest: "objectAssign t1 um = Returns out"
    by (auto split: outcome.splits)
  from Cons.prems(2) e have kp: "k \<noteq> ''__proto__''" and np: "map_of um ''__proto__'' = None"
    by (auto split: if_splits)
  from Cons.prems(3) e have fresh: "k \<notin> fst ` set um" and d: "distinct (map fst um)"
    by auto
  show ?case
  proof (cases "K = k")
    case True
    with Cons.prems(4) e have "w = v" by simp
    moreover have "map_of out k = map_of t1 k"
      using objectAssign_frame [OF rest fresh] .
    ultimately show ?thesis
      using True assign_value [OF a kp] by simp
  next
    case False
    with Cons.prems(4) e have "map_of um K = Some w" by simp
    then show ?thesis using Cons.IH [OF rest np d] by simp
  qed
qed

lemma objectAssign_returns:
  "map_of um ''__proto__'' = None \<Longrightarrow> \<exists>out. objectAssign r um = Returns out"
proof (induction um arbitrary: r)
  case Nil
  then show ?case by simp
next
  case (Cons e um)
  obtain k v where e: "e = (k, v)" by (cases e)
  with Cons.prems have "k \<noteq> ''__proto__''" and "map_of um ''__proto__'' = None"
    by (auto split: if_splits)
  then show ?case
    using Cons.IH e by (simp add: assign_fresh)
qed

lemma convertType_primitive: "\<not> isObject v \<Longrightarrow> convertType m T v \<noteq> Throws e"
  by (cases v) (auto simp: convertType_def)

lemma initial_single_forwarded:
  assumes "v \<noteq> JNull" and "v \<noteq> JUndefined"
    and "getMapping newParameterMapper k \<noteq> TBuiltin"
    and "\<not> isObject v"
  shows "\<exists>K x. mapParameters newParameterMapper [(k, v)] = Returns [(K, x)]"
proof (cases "getMapping newParameterMapper k")
  case TBuiltin
  with assms(3) show ?thesis by simp
next
  case TUndefined
  then show ?thesis using fallback_single [OF TUndefined assms(1,2)] by blast
next
  case (TStr t)
  note shape = initial_target_shape [OF TStr]
  show ?thesis
  proof (cases "CHR ''.'' \<in> set t")
    case True
    with shape have t: "t = ''CreateBucketConfiguration.LocationConstraint''" by blast
    have sp: "splitDot ''CreateBucketConfiguration.LocationConstraint''
       = [''CreateBucketConfiguration'', ''LocationConstraint'']" by code_simp
    have p: "''CreateBucketConfiguration'' \<notin> set objectPrototypeKeys" by code_simp
    have c: "''LocationConstraint'' \<noteq> ''__proto__''" by simp
    have "handleNestedParameter [] t v
        = Returns [(''CreateBucketConfiguration'', JObj [(''LocationConstraint'', v)])]"
      using sp p c unfolding t by (simp add: handleNestedParameter_def assign_fresh)
    then have "mapParameters newParameterMapper [(k, v)]
        = Returns [(''CreateBucketConfiguration'', JObj [(''LocationConstraint'', v)])]"
      using TStr True shape assms(1,2) by (simp add: mapParameters_def mapEntry_def)
    then show ?thesis by blast
  next
    case False
    obtain v' where cv: "convertType newParameterMapper t v = Returns v'"
      using convertType_primitive [OF assms(4), of newParameterMapper t]
        convertType_not_Escapes [of newParameterMapper t v]
      by (cases "convertType newParameterMapper t v") auto
    from False shape TStr assms(1,2) have "mapParameters newParameterMapper [(k, v)] =
       (case convertType newParameterMapper t v of
          Returns v' \<Rightarrow> Returns [(t, v')]
        | Throws e \<Rightarrow> Throws e
        | Escapes \<Rightarrow> Escapes)"
      by (intro flat_single) auto
    with cv show ?thesis by simp
  qed
qed

lemma getMapping_TStr_entry:
  "getMapping m k = TStr t \<Longrightarrow> (k, t) \<in> set (knownMappings m)"
  by (auto simp: getMapping_def split: option.splits if_splits dest: map_of_SomeD)

lemma wellFormedTable_entry:
  assumes "wellFormedTable m" and "getMapping m k = TStr t"
  shows "k \<noteq> ''__proto__''" and "t \<noteq> ''__proto__''" and "t \<notin> set (nestedParents m)"
    and "splitDot t = [P, C] \<Longrightarrow> P \<notin> set objectPrototypeKeys \<and> C \<noteq> ''__proto__''
           \<and> P \<in> set (nestedParents m)"
proof -
  from assms(2) have mem: "(k, t) \<in> set (knownMappings m)"
    by (rule getMapping_TStr_entry)
  with assms(1) have wf: "k \<noteq> ''__proto__'' \<and> t \<noteq> ''__proto__'' \<and> t \<notin> set (nestedParents m)
         \<and> (case splitDot t of
               [parent, child] \<Rightarrow> parent \<notin> set objectPrototypeKeys \<and> child \<noteq> ''__proto__''
             | _ \<Rightarrow> True)"
    by (auto simp: wellFormedTable_def list_all_iff)
  then show "k \<noteq> ''__proto__''" and "t \<noteq> ''__proto__''" and "t \<notin> set (nestedParents m)"
    by simp_all
  assume sp: "splitDot t = [P, C]"
  with mem have "P \<in> set (nestedParents m)"
    by (force simp: nestedParents_def)
  with wf sp show "P \<notin> set objectPrototypeKeys \<and> C \<noteq> ''__proto__'' \<and> P \<in> set (nestedParents m)"
    by simp
qed

lemma parentsAreObjects_setOwn_obj:
  "parentsAreObjects m r \<Longrightarrow> parentsAreObjects m (setOwn r P (JObj ps))"
  by (auto simp: parentsAreObjects_def list_all_iff map_of_setOwn)

lemma parentsAreObjects_setOwn_other:
  "parentsAreObjects m r \<Longrightarrow> t \<notin> set (nestedParents m) \<Longrightarrow> parentsAreObjects m (setOwn r t v)"
  by (auto simp: parentsAreObjects_def list_all_iff map_of_setOwn)

lemma parentsAreObjects_lookup:
  "parentsAreObjects m r \<Longrightarrow> P \<in> set (nestedParents m) \<Longrightarrow> map_of r P = Some x
     \<Longrightarrow> \<exists>ps. x = JObj ps"
  by (auto simp: parentsAreObjects_def list_all_iff split: jsval.splits)

lemma handleNestedParameter_wellFormed:
  assumes wf: "wellFormedTable m" and g: "getMapping m k = TStr t"
    and inv: "parentsAreObjects m r"
  shows "\<exists>r'. handleNestedParameter r t v = Returns r' \<and> parentsAreObjects m r'"
proof (cases "\<exists>P C. splitDot t = [P, C]")
  case False
  then have "handleNestedParameter r t v = Returns r"
    by (auto simp: handleNestedParameter_def split: list.splits)
  with inv show ?thesis by simp
next
  case True
  then obtain P C where sp: "splitDot t = [P, C]" by blast
  from wellFormedTable_entry(4) [OF wf g sp]
  have p: "P \<notin> set objectPrototypeKeys" and c: "C \<noteq> ''__proto__''"
    and mem: "P \<in> set (nestedParents m)" by simp_all
  show ?thesis
  proof (cases "map_of r P")
    case None
    then have "handleNestedParameter r t v = Returns (setOwn r P (JObj [(C, v)]))"
      using sp p c by (simp add: handleNestedParameter_def assign_fresh)
    then show ?thesis using parentsAreObjects_setOwn_obj [OF inv] by simp
  next
    case (Some x)
    from parentsAreObjects_lookup [OF inv mem Some] obtain ps where "x = JObj ps" by blast
    with Some have "handleNestedParameter r t v = Returns (setOwn r P (JObj (setOwn ps C v)))"
      using sp c by (simp add: handleNestedParameter_def assign_fresh)
    then show ?thesis using parentsAreObjects_setOwn_obj [OF inv] by simp
  qed
qed

lemma convertType_Throws_TypeError: "convertType m t v = Throws e \<Longrightarrow> e = TypeError"
  by (cases e) simp

lemma mapEntry_wellFormed:
  assumes wf: "wellFormedTable m"
    and inv: "parentsAreObjects m r" "map_of um ''__proto__'' = None"
  shows "if raisingEntry m (k, v) then mapEntry m (k, v) (r, um) = Throws TypeError
         else (\<exists>r' um'. mapEntry m (k, v) (r, um) = Returns (r', um')
                 \<and> parentsAreObjects m r' \<and> map_of um' ''__proto__'' = None)"
proof (cases "v = JNull \<or> v = JUndefined")
  case True
  then show ?thesis using inv by (auto simp: raisingEntry_def mapEntry_nullish)
next
  case nn: False
  have fallback: "\<exists>r' um'. mapEntry m (k, v) (r, um) = Returns (r', um')
                 \<and> parentsAreObjects m r' \<and> map_of um' ''__proto__'' = None"
    if route: "getMapping m k = TUndefined \<or> getMapping m k = TStr []"
  proof -
    have "k \<noteq> ''__proto__''"
      using route getMapping_TUndefined_not_inherited [of m k] proto_inherited
        wellFormedTable_entry(1) [OF wf, of k "[]"] by auto
    then have fp: "smartCaseConversion k \<noteq> ''__proto__''"
      using smartCaseConversion_proto by blast
    have "map_of (setOwn um (smartCaseConversion k) v) ''__proto__'' = None"
      using fp inv(2) by (simp add: map_of_setOwn)
    then show ?thesis
      using route nn inv(1) fp by (auto simp: mapEntry_def assign_fresh)
  qed
  show ?thesis
  proof (cases "getMapping m k")
    case TBuiltin
    then show ?thesis using nn by (simp add: raisingEntry_def mapEntry_def)
  next
    case TUndefined
    then show ?thesis using fallback nn by (simp add: raisingEntry_def)
  next
    case (TStr t)
    show ?thesis
    proof (cases "t = []")
      case True
      with TStr show ?thesis using fallback nn by (simp add: raisingEntry_def)
    next
      case ne: False
      show ?thesis
      proof (cases "CHR ''.'' \<in> set t")
        case True
        from handleNestedParameter_wellFormed [OF wf TStr inv(1), of v] obtain r' where
          "handleNestedParameter r t v = Returns r'" "parentsAreObjects m r'" by blast
        then show ?thesis
          using TStr ne True nn inv(2) by (simp add: raisingEntry_def mapEntry_def)
      next
        case dotfree: False
        note e = wellFormedTable_entry(2,3) [OF wf TStr]
        show ?thesis
        proof (cases "convertType m t v")
          case (Returns v')
          have "parentsAreObjects m (setOwn r t v')"
            using parentsAreObjects_setOwn_other [OF inv(1) e(2)] .
          then show ?thesis
            using TStr ne dotfree nn Returns e(1) inv(2)
            by (simp add: raisingEntry_def mapEntry_def assign_fresh)
        next
          case (Throws err)
          then have "err = TypeError" by (rule convertType_Throws_TypeError)
          with Throws show ?thesis
            using TStr ne dotfree nn by (simp add: raisingEntry_def mapEntry_def)
        next
          case Escapes
          then show ?thesis using convertType_not_Escapes by blast
        qed
      qed
    qed
  qed
qed

lemma mapLoop_wellFormed:
  assumes "wellFormedTable m" and "parentsAreObjects m r" and "map_of um ''__proto__'' = None"
  shows "if list_ex (raisingEntry m) input then mapLoop m input (r, um) = Throws TypeError
         else (\<exists>r' um'. mapLoop m input (r, um) = Returns (r', um')
                 \<and> map_of um' ''__proto__'' = None)"
  using assms(2,3)
proof (induction input arbitrary: r um)
  case Nil
  then show ?case by simp
next
  case (Cons e input)
  obtain k v where e: "e = (k, v)" by (cases e)
  note step = mapEntry_wellFormed [OF assms(1) Cons.prems, of k v]
  show ?case
  proof (cases "raisingEntry m (k, v)")
    case True
    with step show ?thesis using e by simp
  next
    case False
    with step obtain r1 um1 where
      s: "mapEntry m (k, v) (r, um) = Returns (r1, um1)" and
      i: "parentsAreObjects m r1" "map_of um1 ''__proto__'' = None"
      by auto
    from Cons.IH [OF i] show ?thesis
      using s e False by simp
  qed
qed

lemma nestedParents_shipped:
  "nestedParents newParameterMapper = [''CreateBucketConfiguration'']"
  by code_simp

lemma wellFormedTable_shipped: "wellFormedTable newParameterMapper"
  unfolding wellFormedTable_def nestedParents_shipped by code_simp











section \<open>Properties\<close>

subsection \<open>convertType\<close>

text \<open>
  C7, as the code has it. For every target key registered as boolean-valued and not also
  registered as date-valued, convertType returns the boolean true exactly when the value
  is the boolean true or the string "true" (case-sensitive), and the boolean false for
  every other value. The date test comes first in convertType, so a key in both lists is
  converted to a Date.
\<close>

theorem convertType_boolean:
  assumes "key \<in> set (booleanParameters m)" and "key \<notin> set (dateParameters m)"
  shows "convertType m key value = Returns (JBool (value = JBool True \<or> value = JStr ''true''))"
  using assms by (simp add: convertType_def)

theorem convertType_boolean_witness:
  "''BucketKeyEnabled'' \<in> set (booleanParameters newParameterMapper)
   \<and> ''BucketKeyEnabled'' \<notin> set (dateParameters newParameterMapper)
   \<and> convertType newParameterMapper ''BucketKeyEnabled'' (JStr ''true'') = Returns (JBool True)
   \<and> convertType newParameterMapper ''BucketKeyEnabled'' (JStr ''yes'') = Returns (JBool False)"
proof -
  have b: "''BucketKeyEnabled'' \<in> set (booleanParameters newParameterMapper)"
    by code_simp
  have d: "''BucketKeyEnabled'' \<notin> set (dateParameters newParameterMapper)"
    by code_simp
  show ?thesis
    using b d convertType_boolean [OF b d, of "JStr ''true''"]
      convertType_boolean [OF b d, of "JStr ''yes''"]
    by simp
qed

text \<open>
  C7 as stated fails for a key that is in both lists: after
  \<^verbatim>\<open>addMapping("expiry", "Expires", "boolean")\<close> the key Expires is registered as
  boolean-valued, and convertType turns the boolean true into a Date.
\<close>

theorem convertType_boolean_counterexample:
  "''Expires'' \<in> set (booleanParameters (addMapping newParameterMapper ''expiry'' ''Expires'' (Some ''boolean'')))
   \<and> convertType (addMapping newParameterMapper ''expiry'' ''Expires'' (Some ''boolean'')) ''Expires'' (JBool True)
       = Returns (JDate (Millis 1))"
  by code_simp

text \<open>
  C2, as the code has it. For every target key registered as date-valued, convertType
  raises nothing for a string, parseable or not: it returns the Date object that
  \<^verbatim>\<open>new Date(value)\<close> builds from it, an Invalid Date when the engine cannot read the
  string. The same holds for every value other than an object with an own property
  \<^verbatim>\<open>toString\<close>. When convertType does raise at a flat target, mapParameters raises the
  same error to its caller, whatever was mapped before: nothing is caught.
\<close>

theorem convertType_date:
  assumes "T \<in> set (dateParameters m)"
  shows "convertType m T (JStr s) = Returns (JDate (Parsed s))
    \<and> ((\<forall>ps. v = JObj ps \<longrightarrow> map_of ps ''toString'' = None)
          \<longrightarrow> (\<exists>t. convertType m T v = Returns (JDate t)))
    \<and> (getMapping m k = TStr T \<and> T \<noteq> [] \<and> CHR ''.'' \<notin> set T
          \<and> w \<noteq> JNull \<and> w \<noteq> JUndefined
          \<and> convertType m T w = Throws e
          \<and> mapLoop m pre ([], []) = Returns st
          \<longrightarrow> mapParameters m (pre @ (k, w) # post) = Throws e)"
proof (intro conjI impI)
  show "convertType m T (JStr s) = Returns (JDate (Parsed s))"
    using assms by (simp add: convertType_def)
next
  assume "\<forall>ps. v = JObj ps \<longrightarrow> map_of ps ''toString'' = None"
  then show "\<exists>t. convertType m T v = Returns (JDate t)"
    using assms by (cases v) (auto simp: convertType_def)
next
  assume h: "getMapping m k = TStr T \<and> T \<noteq> [] \<and> CHR ''.'' \<notin> set T
          \<and> w \<noteq> JNull \<and> w \<noteq> JUndefined
          \<and> convertType m T w = Throws e
          \<and> mapLoop m pre ([], []) = Returns st"
  then have "mapEntry m (k, w) st = Throws e"
    by (cases st) (simp add: mapEntry_def)
  with h show "mapParameters m (pre @ (k, w) # post) = Throws e"
    by (simp add: mapParameters_def mapLoop_append)
qed

theorem convertType_date_witness:
  "''Expires'' \<in> set (dateParameters newParameterMapper)
   \<and> convertType newParameterMapper ''Expires'' (JStr ''2024-01-01'')
       = Returns (JDate (Parsed ''2024-01-01''))
   \<and> (\<exists>t. convertType newParameterMapper ''Expires'' (JNum 0) = Returns (JDate t))
   \<and> mapParameters newParameterMapper
        [(''bucketName'', JStr ''logs''), (''expires'', JObj [(''toString'', JNum 1)])]
       = Throws TypeError"
proof -
  have d: "''Expires'' \<in> set (dateParameters newParameterMapper)"
    by code_simp
  have pre: "mapLoop newParameterMapper [(''bucketName'', JStr ''logs'')] ([], [])
       = Returns ([(''Bucket'', JStr ''logs'')], [])"
    by code_simp
  have thr: "convertType newParameterMapper ''Expires'' (JObj [(''toString'', JNum 1)])
       = Throws TypeError"
    by code_simp
  have g: "getMapping newParameterMapper ''expires'' = TStr ''Expires''"
    by code_simp
  show ?thesis
    using d pre thr g
      convertType_date [OF d, of "''2024-01-01''" "JNum 0" "''expires''"
        "JObj [(''toString'', JNum 1)]" TypeError "[(''bucketName'', JStr ''logs'')]"
        "([(''Bucket'', JStr ''logs'')], [])" "[]"]
    by simp
qed

text \<open>
  C2 as stated fails at the string "not-a-date": convertType returns a Date object and
  mapParameters stores it under the target.
\<close>

theorem convertType_date_counterexample:
  "convertType newParameterMapper ''Expires'' (JStr ''not-a-date'')
     = Returns (JDate (Parsed ''not-a-date''))
   \<and> mapParameters newParameterMapper [(''expires'', JStr ''not-a-date'')]
     = Returns [(''Expires'', JDate (Parsed ''not-a-date''))]"
  by code_simp

subsection \<open>The conversion registry\<close>

text \<open>
  C4, as the code has it. The two lists the constructor builds are disjoint. From a
  mapper with disjoint lists, addMapping yields disjoint lists again exactly when the
  target key is not already in the other list: it appends without looking. (mapParameters
  and convertType return no mapper: they leave the lists as they are.)
\<close>

theorem addMapping_disjointRegistry:
  "disjointRegistry newParameterMapper
   \<and> (disjointRegistry m \<longrightarrow>
        (disjointRegistry (addMapping m s t kind) \<longleftrightarrow>
           \<not> (kind = Some ''date'' \<and> t \<in> set (booleanParameters m))
           \<and> \<not> (kind = Some ''boolean'' \<and> t \<in> set (dateParameters m))))"
  by (auto simp: disjointRegistry_def addMapping_def newParameterMapper_def)

theorem addMapping_disjointRegistry_witness:
  "disjointRegistry newParameterMapper
   \<and> disjointRegistry (addMapping newParameterMapper ''newParam'' ''NewParam'' (Some ''boolean''))"
proof -
  have "''NewParam'' \<notin> set (dateParameters newParameterMapper)"
    by code_simp
  then show ?thesis
    using addMapping_disjointRegistry
      [of newParameterMapper "''newParam''" "''NewParam''" "Some ''boolean''"]
    by simp
qed

text \<open>
  C4 as stated fails: \<^verbatim>\<open>addMapping("expiry", "Expires", "boolean")\<close> on the fresh mapper
  puts Expires, a date-valued key, into the boolean list as well.
\<close>

theorem addMapping_disjointRegistry_counterexample:
  "disjointRegistry newParameterMapper
   \<and> \<not> disjointRegistry (addMapping newParameterMapper ''expiry'' ''Expires'' (Some ''boolean''))"
  by code_simp

subsection \<open>mapParameters\<close>

text \<open>
  C3, as the code has it. On a mapper whose table is well-formed, mapParameters raises a
  TypeError exactly when the input holds a raising entry: an entry, with a value other
  than null and undefined, whose flat target makes convertType raise (a date-valued
  target given an object with an own property \<^verbatim>\<open>toString\<close>), or whose key makes the table
  read find an inherited member. On every other input, empty or not, with unknown or
  colliding keys, it returns an object.
\<close>

theorem mapParameters_returns:
  assumes "wellFormedTable m"
  shows "if list_ex (raisingEntry m) input then mapParameters m input = Throws TypeError
         else (\<exists>out. mapParameters m input = Returns out)"
proof -
  have i: "parentsAreObjects m []"
    by (simp add: parentsAreObjects_def list_all_iff)
  have n: "map_of ([] :: obj) ''__proto__'' = None" by simp
  note loop = mapLoop_wellFormed [OF assms i n, of input]
  show ?thesis
  proof (cases "list_ex (raisingEntry m) input")
    case True
    with loop show ?thesis by (simp add: mapParameters_def)
  next
    case False
    with loop obtain r' um' where
      "mapLoop m input ([], []) = Returns (r', um')" "map_of um' ''__proto__'' = None"
      by auto
    then show ?thesis
      using False objectAssign_returns [of um' r'] by (auto simp: mapParameters_def)
  qed
qed

theorem mapParameters_returns_witness:
  "wellFormedTable newParameterMapper
   \<and> (\<exists>out. mapParameters newParameterMapper
          [(''bucketName'', JStr ''logs''), (''Bucket'', JStr ''other''),
           (''customFlag'', JBool False), (''expires'', JStr ''not-a-date''),
           (''locationConstraint'', JStr ''eu-west-1''), (''acl'', JNull)] = Returns out)
   \<and> mapParameters newParameterMapper [] = Returns []
   \<and> mapParameters newParameterMapper
        [(''bucketName'', JStr ''logs''), (''expires'', JObj [(''toString'', JNum 1)])]
       = Throws TypeError"
proof -
  have ok: "\<not> list_ex (raisingEntry newParameterMapper)
          [(''bucketName'', JStr ''logs''), (''Bucket'', JStr ''other''),
           (''customFlag'', JBool False), (''expires'', JStr ''not-a-date''),
           (''locationConstraint'', JStr ''eu-west-1''), (''acl'', JNull)]"
    by code_simp
  have bad: "list_ex (raisingEntry newParameterMapper)
        [(''bucketName'', JStr ''logs''), (''expires'', JObj [(''toString'', JNum 1)])]"
    by code_simp
  have e: "mapParameters newParameterMapper [] = Returns []"
    by code_simp
  show ?thesis
    using ok bad e wellFormedTable_shipped
      mapParameters_returns [OF wellFormedTable_shipped,
        of "[(''bucketName'', JStr ''logs''), (''Bucket'', JStr ''other''),
           (''customFlag'', JBool False), (''expires'', JStr ''not-a-date''),
           (''locationConstraint'', JStr ''eu-west-1''), (''acl'', JNull)]"]
      mapParameters_returns [OF wellFormedTable_shipped,
        of "[(''bucketName'', JStr ''logs''), (''expires'', JObj [(''toString'', JNum 1)])]"]
    by simp
qed

text \<open>
  C3 as stated fails: mapParameters raises a TypeError on \<^verbatim>\<open>{"expires": {"toString": 1}}\<close>,
  where \<^verbatim>\<open>new Date\<close> cannot turn the value into a primitive, and on
  \<^verbatim>\<open>{"constructor": "x"}\<close>, where \<^verbatim>\<open>this.knownMappings[key]\<close> finds the function every object
  inherits under that name, which is truthy and has no method \<^verbatim>\<open>includes\<close>.
\<close>

theorem mapParameters_returns_counterexample:
  "mapParameters newParameterMapper [(''expires'', JObj [(''toString'', JNum 1)])]
     = Throws TypeError
   \<and> mapParameters newParameterMapper [(''constructor'', JStr ''x'')] = Throws TypeError"
  by code_simp

text \<open>
  C10. When the target of a known key contains a dot and does not split into exactly two
  segments, the entry leaves both the result and the unmapped parameters as they were,
  whatever its value, and raises nothing: mapParameters on that entry alone returns the
  empty object, and inside a longer input the entry can be struck out.
\<close>

theorem deep_target_ignored:
  assumes "getMapping m k = TStr t" and "CHR ''.'' \<in> set t" and "length (splitDot t) \<noteq> 2"
  shows "mapEntry m (k, v) s = Returns s
    \<and> mapParameters m [(k, v)] = Returns []
    \<and> mapParameters m (pre @ (k, v) # post) = mapParameters m (pre @ post)"
proof -
  have ne: "t \<noteq> []" using assms(2) by auto
  have step: "mapEntry m (k, v) s' = Returns s'" for s'
    using assms ne by (cases s') (simp add: mapEntry_def handleNestedParameter_other)
  have "mapLoop m (pre @ (k, v) # post) s' = mapLoop m (pre @ post) s'" for s'
    by (simp add: mapLoop_append step split: outcome.splits)
  then show ?thesis
    by (simp add: mapParameters_def step)
qed

theorem deep_target_ignored_witness:
  "getMapping (addMapping newParameterMapper ''region'' ''Create.Bucket.Region'' None) ''region''
     = TStr ''Create.Bucket.Region''
   \<and> length (splitDot ''Create.Bucket.Region'') = 3
   \<and> mapParameters (addMapping newParameterMapper ''region'' ''Create.Bucket.Region'' None)
        [(''region'', JStr ''eu-west-1'')] = Returns []
   \<and> mapParameters (addMapping newParameterMapper ''region'' ''Create.Bucket.Region'' None)
        [(''bucketName'', JStr ''logs''), (''region'', JStr ''eu-west-1'')]
      = Returns [(''Bucket'', JStr ''logs'')]"
proof -
  let ?m = "addMapping newParameterMapper ''region'' ''Create.Bucket.Region'' None"
  have g: "getMapping ?m ''region'' = TStr ''Create.Bucket.Region''"
    by code_simp
  have d: "CHR ''.'' \<in> set ''Create.Bucket.Region''" by code_simp
  have l: "length (splitDot ''Create.Bucket.Region'') = 3" by code_simp
  then have l2: "length (splitDot ''Create.Bucket.Region'') \<noteq> 2" by simp
  note t = deep_target_ignored [OF g d l2, of "JStr ''eu-west-1''"]
  have a: "mapParameters ?m [(''region'', JStr ''eu-west-1'')] = Returns []"
    using t by blast
  have "mapParameters ?m ([(''bucketName'', JStr ''logs'')] @ (''region'', JStr ''eu-west-1'') # [])
      = mapParameters ?m ([(''bucketName'', JStr ''logs'')] @ [])"
    using t by blast
  moreover have "mapParameters ?m [(''bucketName'', JStr ''logs'')] = Returns [(''Bucket'', JStr ''logs'')]"
    by code_simp
  ultimately have b: "mapParameters ?m [(''bucketName'', JStr ''logs''), (''region'', JStr ''eu-west-1'')]
      = Returns [(''Bucket'', JStr ''logs'')]" by simp
  show ?thesis using g l a b by simp
qed

text \<open>
  C5 fails on the code. The key "toString" is no entry of the table, and its fallback
  key would be "ToString"; but the table read finds the inherited function of that name,
  and mapParameters raises a TypeError instead of forwarding the value. (For a key under
  which the table read finds nothing, \<open>fallback_single\<close> above shows the entry
  forwarded under the key with its first character upper-cased, the value unchanged.)
\<close>

theorem fallback_inherited_key_throws:
  "map_of (knownMappings newParameterMapper) ''toString'' = None
   \<and> smartCaseConversion ''toString'' = ''ToString''
   \<and> mapParameters newParameterMapper [(''toString'', JStr ''x'')] = Throws TypeError"
  by code_simp

text \<open>
  Nested targets. For every known key whose target splits into exactly two segments P.C,
  where P is not one of the names every object inherits from \<^verbatim>\<open>Object.prototype\<close> and C
  is not \<^verbatim>\<open>__proto__\<close>, and for every value that is neither null nor undefined,
  mapParameters on that entry alone returns the object with the one property P, whose
  value is the object with the one property C holding the value as it came: no registry
  is consulted on this path.
\<close>

lemma nested_target:
  assumes "getMapping m k = TStr t" and "splitDot t = [P, C]"
    and "P \<notin> set objectPrototypeKeys" and "C \<noteq> ''__proto__''"
    and "v \<noteq> JNull" and "v \<noteq> JUndefined"
  shows "mapParameters m [(k, v)] = Returns [(P, JObj [(C, v)])]"
proof -
  have dot: "CHR ''.'' \<in> set t" using assms(2) by (rule splitDot_pair_has_dot)
  then have ne: "t \<noteq> []" by auto
  have "handleNestedParameter [] t v = Returns [(P, JObj [(C, v)])]"
    using assms(2,3,4) by (simp add: handleNestedParameter_def assign_fresh)
  then show ?thesis
    using assms(1,5,6) dot ne by (simp add: mapParameters_def mapEntry_def)
qed

lemma nested_target_locationConstraint:
  "getMapping newParameterMapper ''locationConstraint''
     = TStr ''CreateBucketConfiguration.LocationConstraint''
   \<and> splitDot ''CreateBucketConfiguration.LocationConstraint''
     = [''CreateBucketConfiguration'', ''LocationConstraint'']
   \<and> mapParameters newParameterMapper [(''locationConstraint'', JStr ''eu-west-1'')]
     = Returns [(''CreateBucketConfiguration'', JObj [(''LocationConstraint'', JStr ''eu-west-1'')])]
   \<and> mapParameters newParameterMapper [(''locationConstraint'', JBool False)]
     = Returns [(''CreateBucketConfiguration'', JObj [(''LocationConstraint'', JBool False)])]"
proof -
  have g: "getMapping newParameterMapper ''locationConstraint''
     = TStr ''CreateBucketConfiguration.LocationConstraint''"
    by code_simp
  have sp: "splitDot ''CreateBucketConfiguration.LocationConstraint''
     = [''CreateBucketConfiguration'', ''LocationConstraint'']"
    by code_simp
  have p: "''CreateBucketConfiguration'' \<notin> set objectPrototypeKeys"
    by code_simp
  have c: "''LocationConstraint'' \<noteq> ''__proto__''"
    by simp
  show ?thesis
    using g sp
      nested_target [OF g sp p c, of "JStr ''eu-west-1''"]
      nested_target [OF g sp p c, of "JBool False"]
    by simp
qed

text \<open>
  C6 fails on the code when a segment of the target is an inherited name. For the target
  "constructor.region", registered with addMapping, the test \<^verbatim>\<open>!result[parent]\<close> finds
  the function every object inherits under "constructor"; no sub-mapping is created, and
  the value is written into that function instead of the result, which is not
  \<^verbatim>\<open>{constructor: {region: "eu-west-1"}}\<close>. For the target "Config.__proto__" the
  sub-mapping is created, but the assignment of the child reaches the inherited setter,
  which ignores a string: the output is \<^verbatim>\<open>{Config: {}}\<close>.
\<close>

theorem nested_target_inherited_names:
  "getMapping (addMapping newParameterMapper ''region'' ''constructor.region'' None) ''region''
     = TStr ''constructor.region''
   \<and> splitDot ''constructor.region'' = [''constructor'', ''region'']
   \<and> mapParameters (addMapping newParameterMapper ''region'' ''constructor.region'' None)
        [(''region'', JStr ''eu-west-1'')] = Escapes
   \<and> getMapping (addMapping newParameterMapper ''config'' ''Config.__proto__'' None) ''config''
     = TStr ''Config.__proto__''
   \<and> splitDot ''Config.__proto__'' = [''Config'', ''__proto__'']
   \<and> mapParameters (addMapping newParameterMapper ''config'' ''Config.__proto__'' None)
        [(''config'', JStr ''x'')] = Returns [(''Config'', JObj [])]"
  by code_simp



text \<open>
  C9 as stated fails: after \<^verbatim>\<open>addMapping("region", "Create.Bucket.Region")\<close> the target
  has three segments, \<^verbatim>\<open>parts.length === 2\<close> is false, and the entry is dropped although
  its value is false, or 0. And under a key that names a member of
  \<^verbatim>\<open>Object.prototype\<close> the values false, 0 and "" are not forwarded: mapParameters raises
  a TypeError.
\<close>

theorem null_guard_counterexample:
  "getMapping (addMapping newParameterMapper ''region'' ''Create.Bucket.Region'' None) ''region''
     = TStr ''Create.Bucket.Region''
   \<and> mapParameters (addMapping newParameterMapper ''region'' ''Create.Bucket.Region'' None)
       [(''region'', JBool False)] = Returns []
   \<and> mapParameters (addMapping newParameterMapper ''region'' ''Create.Bucket.Region'' None)
       [(''region'', JNum 0)] = Returns []
   \<and> mapParameters newParameterMapper [(''toString'', JBool False)] = Throws TypeError
   \<and> mapParameters newParameterMapper [(''constructor'', JNum 0)] = Throws TypeError
   \<and> mapParameters newParameterMapper [(''valueOf'', JStr [])] = Throws TypeError"
  by code_simp

text \<open>
  C1, as the code has it. An entry whose key the table does not hold is collected in
  \<open>unmappedParams\<close>, and \<^verbatim>\<open>Object.assign(result, unmappedParams)\<close> runs after the loop.
  So whenever mapParameters returns, the value of such an entry is in the output under
  its fallback key, wherever the entry stands in the input and whichever known keys
  write to the same name before or after it; only a later fallback entry with the same
  converted key replaces it.
\<close>

theorem fallback_overrides:
  assumes "mapParameters m (pre @ (u, w) # post) = Returns out"
    and "getMapping m u = TUndefined" and "w \<noteq> JNull" and "w \<noteq> JUndefined"
    and "\<forall>e\<in>set post. fallbackEntry m e \<longrightarrow> smartCaseConversion (fst e) \<noteq> smartCaseConversion u"
  shows "map_of out (smartCaseConversion u) = Some w"
proof -
  from assms(1) obtain r' um' where
    loop: "mapLoop m (pre @ (u, w) # post) ([], []) = Returns (r', um')" and
    merge: "objectAssign r' um' = Returns out"
    by (auto simp: mapParameters_def split: outcome.splits)
  from loop obtain r1 um1 r2 um2 where
    l1: "mapLoop m pre ([], []) = Returns (r1, um1)" and
    st: "mapEntry m (u, w) (r1, um1) = Returns (r2, um2)" and
    l2: "mapLoop m post (r2, um2) = Returns (r', um')"
    by (auto simp: mapLoop_append split: outcome.splits)
  have fb: "fallbackEntry m (u, w)"
    using assms(2,3,4) by (simp add: fallbackEntry_def)
  have "u \<noteq> ''__proto__''"
    using getMapping_TUndefined_not_inherited [OF assms(2)] proto_inherited by auto
  then have np: "smartCaseConversion u \<noteq> ''__proto__''"
    using smartCaseConversion_proto by blast
  from mapLoop_unmapped [OF l1, of "smartCaseConversion u"]
  have i1: "map_of um1 ''__proto__'' = None" "distinct (map fst um1)" by simp_all
  from mapEntry_fallback [OF fb st]
  have a: "assign um1 (smartCaseConversion u) w = Returns um2" by simp
  have i2: "map_of um2 ''__proto__'' = None" "distinct (map fst um2)"
    using assign_noProto [OF a i1(1)] assign_distinct [OF a i1(2)] by simp_all
  have v2: "map_of um2 (smartCaseConversion u) = Some w"
    using assign_value [OF a np] .
  from mapLoop_unmapped [OF l2 i2, of "smartCaseConversion u"] assms(5)
  have i3: "map_of um' ''__proto__'' = None" "distinct (map fst um')"
    "map_of um' (smartCaseConversion u) = map_of um2 (smartCaseConversion u)"
    by simp_all
  show ?thesis
    using objectAssign_wins [OF merge i3(1,2)] i3(3) v2 by simp
qed

theorem fallback_overrides_witness:
  "mapParameters newParameterMapper [(''Bucket'', JStr ''a''), (''bucketName'', JStr ''b'')]
     = Returns [(''Bucket'', JStr ''a'')]
   \<and> mapParameters newParameterMapper [(''bucketName'', JStr ''b''), (''Bucket'', JStr ''a'')]
     = Returns [(''Bucket'', JStr ''a'')]
   \<and> getMapping newParameterMapper ''Bucket'' = TUndefined
   \<and> getMapping newParameterMapper ''bucketName'' = TStr ''Bucket''
   \<and> smartCaseConversion ''Bucket'' = ''Bucket''
   \<and> map_of [(''Bucket'', JStr ''a'')] ''Bucket'' = Some (JStr ''a'')"
proof -
  have m1: "mapParameters newParameterMapper ([] @ (''Bucket'', JStr ''a'') # [(''bucketName'', JStr ''b'')])
     = Returns [(''Bucket'', JStr ''a'')]" by code_simp
  have m2: "mapParameters newParameterMapper ([(''bucketName'', JStr ''b'')] @ (''Bucket'', JStr ''a'') # [])
     = Returns [(''Bucket'', JStr ''a'')]" by code_simp
  have g: "getMapping newParameterMapper ''Bucket'' = TUndefined" by code_simp
  have k: "getMapping newParameterMapper ''bucketName'' = TStr ''Bucket''" by code_simp
  have f: "smartCaseConversion ''Bucket'' = ''Bucket''" by code_simp
  have w: "JStr ''a'' \<noteq> JNull" "JStr ''a'' \<noteq> JUndefined" by simp_all
  have p1: "\<forall>e\<in>set [(''bucketName'', JStr ''b'')]. fallbackEntry newParameterMapper e
      \<longrightarrow> smartCaseConversion (fst e) \<noteq> smartCaseConversion ''Bucket''"
    using k by (simp add: fallbackEntry_def)
  have p2: "\<forall>e\<in>set []. fallbackEntry newParameterMapper e
      \<longrightarrow> smartCaseConversion (fst e) \<noteq> smartCaseConversion ''Bucket''"
    by simp
  show ?thesis
    using m1 m2 g k f fallback_overrides [OF m1 g w p1] fallback_overrides [OF m2 g w p2]
    by simp
qed

text \<open>
  C1 as stated fails: in \<^verbatim>\<open>{Bucket: "a", bucketName: "b"}\<close> the known key bucketName is
  processed after the unknown key Bucket and writes "b" under the same name, yet the
  output holds the fallback value "a".
\<close>

theorem fallback_overrides_counterexample:
  "getMapping newParameterMapper ''bucketName'' = TStr ''Bucket''
   \<and> getMapping newParameterMapper ''Bucket'' = TUndefined
   \<and> smartCaseConversion ''Bucket'' = ''Bucket''
   \<and> mapParameters newParameterMapper [(''Bucket'', JStr ''a''), (''bucketName'', JStr ''b'')]
     = Returns [(''Bucket'', JStr ''a'')]"
  by code_simp

text \<open>
  A bucket-creation call on the mapper as constructed: flat targets, the nested target
  and a boolean conversion in one input.
\<close>

lemma createBucket_example:
  "mapParameters newParameterMapper
     [(''bucketName'', JStr ''logs''), (''acl'', JStr ''private''),
      (''locationConstraint'', JStr ''eu-west-1''),
      (''objectLockEnabledForBucket'', JStr ''true'')]
   = Returns
     [(''Bucket'', JStr ''logs''), (''ACL'', JStr ''private''),
      (''CreateBucketConfiguration'', JObj [(''LocationConstraint'', JStr ''eu-west-1'')]),
      (''ObjectLockEnabledForBucket'', JBool True)]"
  by code_simp

subsection \<open>addMapping\<close>

text \<open>
  What addMapping registers. For every source key other than \<^verbatim>\<open>__proto__\<close>, addMapping
  makes the table read under that key yield the new target, whatever was there before,
  and leaves the read under every other key as it was; the target is appended to the
  date list for the kind "date", to the boolean list for the kind "boolean", and to
  neither otherwise. A later mapParameters sees the entry: for a flat target other than
  \<^verbatim>\<open>__proto__\<close> it returns the value converted under the new registry, stored under the
  target. On the fresh mapper, \<^verbatim>\<open>addMapping("newParam", "NewParam", "boolean")\<close> followed by
  \<^verbatim>\<open>mapParameters({newParam: "true"})\<close> gives \<^verbatim>\<open>{NewParam: true}\<close>.
\<close>

lemma addMapping_registers:
  assumes "s \<noteq> ''__proto__''"
  shows "getMapping (addMapping m s t kind) s = TStr t
    \<and> (k \<noteq> s \<longrightarrow> getMapping (addMapping m s t kind) k = getMapping m k)
    \<and> dateParameters (addMapping m s t kind)
        = (if kind = Some ''date'' then dateParameters m @ [t] else dateParameters m)
    \<and> booleanParameters (addMapping m s t kind)
        = (if kind = Some ''boolean'' then booleanParameters m @ [t] else booleanParameters m)
    \<and> (t \<noteq> [] \<and> CHR ''.'' \<notin> set t \<and> t \<noteq> ''__proto__'' \<and> v \<noteq> JNull \<and> v \<noteq> JUndefined
        \<longrightarrow> mapParameters (addMapping m s t kind) [(s, v)] =
            (case convertType (addMapping m s t kind) t v of
               Returns v' \<Rightarrow> Returns [(t, v')]
             | Throws e \<Rightarrow> Throws e
             | Escapes \<Rightarrow> Escapes))
    \<and> mapParameters (addMapping newParameterMapper ''newParam'' ''NewParam'' (Some ''boolean''))
        [(''newParam'', JStr ''true'')] = Returns [(''NewParam'', JBool True)]"
proof -
  have g: "getMapping (addMapping m s t kind) s = TStr t"
    using assms by (simp add: getMapping_def addMapping_def map_of_setOwn)
  have other: "k \<noteq> s \<longrightarrow> getMapping (addMapping m s t kind) k = getMapping m k"
    using assms by (simp add: getMapping_def addMapping_def map_of_setOwn)
  have d: "dateParameters (addMapping m s t kind)
        = (if kind = Some ''date'' then dateParameters m @ [t] else dateParameters m)"
    by (simp add: addMapping_def)
  have b: "booleanParameters (addMapping m s t kind)
        = (if kind = Some ''boolean'' then booleanParameters m @ [t] else booleanParameters m)"
    by (simp add: addMapping_def)
  have eff: "t \<noteq> [] \<and> CHR ''.'' \<notin> set t \<and> t \<noteq> ''__proto__'' \<and> v \<noteq> JNull \<and> v \<noteq> JUndefined
        \<longrightarrow> mapParameters (addMapping m s t kind) [(s, v)] =
            (case convertType (addMapping m s t kind) t v of
               Returns v' \<Rightarrow> Returns [(t, v')]
             | Throws e \<Rightarrow> Throws e
             | Escapes \<Rightarrow> Escapes)"
    using flat_single [OF g] by blast
  have ex: "mapParameters (addMapping newParameterMapper ''newParam'' ''NewParam'' (Some ''boolean''))
        [(''newParam'', JStr ''true'')] = Returns [(''NewParam'', JBool True)]"
    by code_simp
  show ?thesis using g other d b eff ex by blast
qed

lemma addMapping_registers_bucketName:
  "getMapping (addMapping newParameterMapper ''bucketName'' ''BucketAlias'' None) ''bucketName''
     = TStr ''BucketAlias''
   \<and> getMapping (addMapping newParameterMapper ''bucketName'' ''BucketAlias'' None) ''acl''
     = TStr ''ACL''
   \<and> mapParameters (addMapping newParameterMapper ''bucketName'' ''BucketAlias'' None)
        [(''bucketName'', JStr ''logs'')] = Returns [(''BucketAlias'', JStr ''logs'')]"
proof -
  have s: "''bucketName'' \<noteq> ''__proto__''" by simp
  have k: "''acl'' \<noteq> ''bucketName''" by simp
  have t: "''BucketAlias'' \<noteq> [] \<and> CHR ''.'' \<notin> set ''BucketAlias''
      \<and> ''BucketAlias'' \<noteq> ''__proto__'' \<and> JStr ''logs'' \<noteq> JNull \<and> JStr ''logs'' \<noteq> JUndefined"
    by simp
  have old: "getMapping newParameterMapper ''acl'' = TStr ''ACL''" by code_simp
  have cv: "convertType (addMapping newParameterMapper ''bucketName'' ''BucketAlias'' None)
      ''BucketAlias'' (JStr ''logs'') = Returns (JStr ''logs'')"
    by code_simp
  show ?thesis
    using k t old cv
      addMapping_registers [OF s, of newParameterMapper "''BucketAlias''" None "''acl''"
        "JStr ''logs''"]
    by simp
qed

text \<open>
  C8 fails on the code for the source key \<^verbatim>\<open>__proto__\<close>. The table is a plain object, so
  the assignment \<^verbatim>\<open>this.knownMappings["__proto__"] = "Prototype"\<close> reaches the inherited
  setter and stores nothing: no entry is registered, the table read under that key still
  finds \<^verbatim>\<open>Object.prototype\<close>, and a later mapParameters raises a TypeError instead of
  returning \<^verbatim>\<open>{Prototype: "x"}\<close>.
\<close>

theorem addMapping_proto_not_registered:
  "getMapping (addMapping newParameterMapper ''__proto__'' ''Prototype'' None) ''__proto__''
     = TBuiltin
   \<and> mapParameters (addMapping newParameterMapper ''__proto__'' ''Prototype'' None)
        [(''__proto__'', JStr ''x'')] = Throws TypeError"
  by code_simp

end
